theory Spec2Isabelle
  imports Main "HOL-Library.Word"
begin

unbundle bit_operations_syntax

section \<open>C types of the payload records and their layout\<close>

text \<open>
  The payload structures of \<^verbatim>\<open>ioctl.c\<close> are built from \<^verbatim>\<open>char\<close>, \<^verbatim>\<open>__u32\<close>,
  \<^verbatim>\<open>__s32\<close>, \<^verbatim>\<open>__aligned_u64\<close>, fixed-length arrays, structs and one anonymous union.
  A struct keeps its field names, in declaration order.
\<close>

datatype ctype =
    C_char
  | C_u32
  | C_s32
  | C_aligned_u64
  | C_array ctype nat
  | C_struct "(string \<times> ctype) list"
  | C_union "(string \<times> ctype) list"

text \<open>Rounding an offset up to the next multiple of an alignment.\<close>

definition align_up :: "nat \<Rightarrow> nat \<Rightarrow> nat" where
  "align_up off a = ((off + a - 1) div a) * a"

text \<open>
  Modelled from the spec: \<^verbatim>\<open>sizeof\<close> and the alignment of a type are computed by the C
  compiler, not by the source file. The spec fixes the rule: natural alignment of the
  scalar fields, 8-byte alignment of the 64-bit fields, each field placed at the next
  offset that is a multiple of its alignment, and the record padded at its end to a
  multiple of its own alignment.
\<close>

fun alignof :: "ctype \<Rightarrow> nat" where
  "alignof C_char = 1"
| "alignof C_u32 = 4"
| "alignof C_s32 = 4"
| "alignof C_aligned_u64 = 8"
| "alignof (C_array t n) = alignof t"
| "alignof (C_struct fs) = foldr max (map (\<lambda>f. alignof (snd f)) fs) 1"
| "alignof (C_union fs) = foldr max (map (\<lambda>f. alignof (snd f)) fs) 1"

text \<open>The offset just past the last field, when the fields are laid out in order.\<close>

fun struct_end :: "nat \<Rightarrow> (nat \<times> nat) list \<Rightarrow> nat" where
  "struct_end off [] = off"
| "struct_end off ((a, s) # fs) = struct_end (align_up off a + s) fs"

fun sizeof :: "ctype \<Rightarrow> nat" where
  "sizeof C_char = 1"
| "sizeof C_u32 = 4"
| "sizeof C_s32 = 4"
| "sizeof C_aligned_u64 = 8"
| "sizeof (C_array t n) = n * sizeof t"
| "sizeof (C_struct fs) =
     align_up (struct_end 0 (map (\<lambda>f. (alignof (snd f), sizeof (snd f))) fs))
              (alignof (C_struct fs))"
| "sizeof (C_union fs) =
     align_up (foldr max (map (\<lambda>f. sizeof (snd f)) fs) 0) (alignof (C_union fs))"

section \<open>The payload records of \<^verbatim>\<open>ioctl.c\<close>\<close>

definition GPIO_MAX_NAME_SIZE :: nat where "GPIO_MAX_NAME_SIZE = 32"
definition GPIO_V2_LINES_MAX :: nat where "GPIO_V2_LINES_MAX = 64"
definition GPIO_V2_LINE_NUM_ATTRS_MAX :: nat where "GPIO_V2_LINE_NUM_ATTRS_MAX = 10"

definition gpiochip_info :: ctype where
  "gpiochip_info = C_struct
     [(''name'', C_array C_char GPIO_MAX_NAME_SIZE),
      (''label'', C_array C_char GPIO_MAX_NAME_SIZE),
      (''lines'', C_u32)]"

definition gpio_v2_line_attribute :: ctype where
  "gpio_v2_line_attribute = C_struct
     [(''id'', C_u32),
      (''padding'', C_u32),
      ('''', C_union
         [(''flags'', C_aligned_u64),
          (''values'', C_aligned_u64),
          (''debounce_period_us'', C_u32)])]"

definition gpio_v2_line_config_attribute :: ctype where
  "gpio_v2_line_config_attribute = C_struct
     [(''attr'', gpio_v2_line_attribute),
      (''mask'', C_aligned_u64)]"

definition gpio_v2_line_config :: ctype where
  "gpio_v2_line_config = C_struct
     [(''flags'', C_aligned_u64),
      (''num_attrs'', C_u32),
      (''padding'', C_array C_u32 5),
      (''attrs'', C_array gpio_v2_line_config_attribute GPIO_V2_LINE_NUM_ATTRS_MAX)]"

definition gpio_v2_line_request :: ctype where
  "gpio_v2_line_request = C_struct
     [(''offsets'', C_array C_u32 GPIO_V2_LINES_MAX),
      (''consumer'', C_array C_char GPIO_MAX_NAME_SIZE),
      (''config'', gpio_v2_line_config),
      (''num_lines'', C_u32),
      (''event_buffer_size'', C_u32),
      (''padding'', C_array C_u32 5),
      (''fd'', C_s32)]"

definition gpio_v2_line_info :: ctype where
  "gpio_v2_line_info = C_struct
     [(''name'', C_array C_char GPIO_MAX_NAME_SIZE),
      (''consumer'', C_array C_char GPIO_MAX_NAME_SIZE),
      (''offset'', C_u32),
      (''num_attrs'', C_u32),
      (''flags'', C_aligned_u64),
      (''attrs'', C_array gpio_v2_line_attribute GPIO_V2_LINE_NUM_ATTRS_MAX),
      (''padding'', C_array C_u32 4)]"

definition gpio_v2_line_values :: ctype where
  "gpio_v2_line_values = C_struct
     [(''bits'', C_aligned_u64),
      (''mask'', C_aligned_u64)]"

section \<open>The ioctl encoding\<close>

text \<open>
  Modelled from the spec: the macros \<^verbatim>\<open>_IOC\<close>, \<^verbatim>\<open>_IOR\<close> and \<^verbatim>\<open>_IOWR\<close> come from the
  system header \<^verbatim>\<open>linux/ioctl.h\<close>, which the source includes and does not define. The
  spec fixes them: the direction code in bits 31..30, the payload size in the next
  14 bits, the magic number in the next 8 bits and the command number in the low 8 bits,
  joined by bitwise OR with no check of any field. Direction, magic and command are
  \<^verbatim>\<open>unsigned int\<close>/\<^verbatim>\<open>int\<close> operands (32 bits); the size is a \<^verbatim>\<open>size_t\<close> (64 bits on the
  target), so the OR is computed at 64 bits.
\<close>

definition IOC_NRBITS :: nat where "IOC_NRBITS = 8"
definition IOC_TYPEBITS :: nat where "IOC_TYPEBITS = 8"
definition IOC_SIZEBITS :: nat where "IOC_SIZEBITS = 14"
definition IOC_DIRBITS :: nat where "IOC_DIRBITS = 2"

definition IOC_NRSHIFT :: nat where "IOC_NRSHIFT = 0"
definition IOC_TYPESHIFT :: nat where "IOC_TYPESHIFT = IOC_NRSHIFT + IOC_NRBITS"
definition IOC_SIZESHIFT :: nat where "IOC_SIZESHIFT = IOC_TYPESHIFT + IOC_TYPEBITS"
definition IOC_DIRSHIFT :: nat where "IOC_DIRSHIFT = IOC_SIZESHIFT + IOC_SIZEBITS"

definition IOC_NONE :: "32 word" where "IOC_NONE = 0"
definition IOC_WRITE :: "32 word" where "IOC_WRITE = 1"
definition IOC_READ :: "32 word" where "IOC_READ = 2"

definition IOC :: "32 word \<Rightarrow> 32 word \<Rightarrow> 32 word \<Rightarrow> 64 word \<Rightarrow> 64 word" where
  "IOC dir ty nr sz =
     ucast (push_bit IOC_DIRSHIFT dir OR push_bit IOC_TYPESHIFT ty OR push_bit IOC_NRSHIFT nr)
       OR push_bit IOC_SIZESHIFT sz"

definition IOR :: "32 word \<Rightarrow> 32 word \<Rightarrow> ctype \<Rightarrow> 64 word" where
  "IOR ty nr argtype = IOC IOC_READ ty nr (word_of_nat (sizeof argtype))"

definition IOWR :: "32 word \<Rightarrow> 32 word \<Rightarrow> ctype \<Rightarrow> 64 word" where
  "IOWR ty nr argtype = IOC (IOC_READ OR IOC_WRITE) ty nr (word_of_nat (sizeof argtype))"

section \<open>The ioctl codes of \<^verbatim>\<open>ioctl.c\<close>\<close>

definition GPIO_GET_CHIPINFO_IOCTL :: "64 word" where
  "GPIO_GET_CHIPINFO_IOCTL = IOR 0xB4 0x01 gpiochip_info"

definition GPIO_GET_LINEINFO_UNWATCH_IOCTL :: "64 word" where
  "GPIO_GET_LINEINFO_UNWATCH_IOCTL = IOWR 0xB4 0x0C C_u32"

definition GPIO_V2_GET_LINEINFO_IOCTL :: "64 word" where
  "GPIO_V2_GET_LINEINFO_IOCTL = IOWR 0xB4 0x05 gpio_v2_line_info"

definition GPIO_V2_GET_LINEINFO_WATCH_IOCTL :: "64 word" where
  "GPIO_V2_GET_LINEINFO_WATCH_IOCTL = IOWR 0xB4 0x06 gpio_v2_line_info"

definition GPIO_V2_GET_LINE_IOCTL :: "64 word" where
  "GPIO_V2_GET_LINE_IOCTL = IOWR 0xB4 0x07 gpio_v2_line_request"

definition GPIO_V2_LINE_SET_CONFIG_IOCTL :: "64 word" where
  "GPIO_V2_LINE_SET_CONFIG_IOCTL = IOWR 0xB4 0x0D gpio_v2_line_config"

definition GPIO_V2_LINE_GET_VALUES_IOCTL :: "64 word" where
  "GPIO_V2_LINE_GET_VALUES_IOCTL = IOWR 0xB4 0x0E gpio_v2_line_values"

definition GPIO_V2_LINE_SET_VALUES_IOCTL :: "64 word" where
  "GPIO_V2_LINE_SET_VALUES_IOCTL = IOWR 0xB4 0x0F gpio_v2_line_values"

section \<open>Formatted output\<close>

text \<open>
  The only conversion the program uses is \<^verbatim>\<open>%08X\<close>: an \<^verbatim>\<open>unsigned int\<close> in uppercase
  hexadecimal, padded with zeros on the left to at least 8 digits.
\<close>

definition hex_digit :: "nat \<Rightarrow> char" where
  "hex_digit d = ''0123456789ABCDEF'' ! (d mod 16)"

fun hex_of_nat :: "nat \<Rightarrow> string" where
  "hex_of_nat n =
     (if n < 16 then [hex_digit n] else hex_of_nat (n div 16) @ [hex_digit (n mod 16)])"

declare hex_of_nat.simps [simp del]

definition fmt_08X :: "32 word \<Rightarrow> string" where
  "fmt_08X v = (let ds = hex_of_nat (unat v) in replicate (8 - length ds) CHR ''0'' @ ds)"

text \<open>
  \<^verbatim>\<open>printf\<close> with one argument: the text up to the first \<^verbatim>\<open>%08X\<close> is copied, the
  argument is formatted in its place, and the rest follows. The argument is a 64-bit
  value; the conversion reads an \<^verbatim>\<open>unsigned int\<close>, its low 32 bits.
\<close>

fun printf :: "string \<Rightarrow> 64 word \<Rightarrow> string" where
  "printf [] v = []"
| "printf (c # cs) v =
     (if c = CHR ''%'' \<and> take 3 cs = ''08X'' then fmt_08X (ucast v) @ drop 3 cs
      else c # printf cs v)"

section \<open>The report driver\<close>

text \<open>
  What a run is started with. \<^verbatim>\<open>main\<close> declares no parameter and reads none of it.
\<close>

record invocation =
  argv :: "string list"
  environ :: "(string \<times> string) list"

text \<open>
  \<^verbatim>\<open>main\<close> takes the standard output written so far and returns the exit status with
  the standard output after the run.
\<close>

definition main :: "invocation \<Rightarrow> string \<Rightarrow> int \<times> string" where
  "main iv out0 =
    (let out1 = out0 @ printf ''0x%08X GPIO_GET_CHIPINFO_IOCTL\<newline>'' GPIO_GET_CHIPINFO_IOCTL;
         out2 = out1 @ printf ''0x%08X GPIO_V2_GET_LINEINFO_IOCTL\<newline>'' GPIO_V2_GET_LINEINFO_IOCTL;
         out3 = out2 @ printf ''0x%08X GPIO_V2_GET_LINEINFO_WATCH_IOCTL\<newline>'' GPIO_V2_GET_LINEINFO_WATCH_IOCTL;
         out4 = out3 @ printf ''0x%08X GPIO_V2_GET_LINE_IOCTL\<newline>'' GPIO_V2_GET_LINE_IOCTL;
         out5 = out4 @ printf ''0x%08X GPIO_GET_LINEINFO_UNWATCH_IOCTL\<newline>'' GPIO_GET_LINEINFO_UNWATCH_IOCTL;
         out6 = out5 @ printf ''0x%08X GPIO_V2_LINE_SET_CONFIG_IOCTL\<newline>'' GPIO_V2_LINE_SET_CONFIG_IOCTL;
         out7 = out6 @ printf ''0x%08X GPIO_V2_LINE_GET_VALUES_IOCTL\<newline>'' GPIO_V2_LINE_GET_VALUES_IOCTL;
         out8 = out7 @ printf ''0x%08X GPIO_V2_LINE_SET_VALUES_IOCTL\<newline>'' GPIO_V2_LINE_SET_VALUES_IOCTL
     in (0, out8))"

text \<open>Any number of runs, one after the other, on the same standard output.\<close>

fun run_all :: "invocation list \<Rightarrow> string \<Rightarrow> string" where
  "run_all [] out0 = out0"
| "run_all (iv # ivs) out0 = run_all ivs (snd (main iv out0))"

section \<open>Reading the report back\<close>

text \<open>
  The claims speak of the lines and of the values the program prints, so the standard
  output is cut at the newlines and the hexadecimal field of a line is read back.
\<close>

fun lines_of :: "string \<Rightarrow> string list" where
  "lines_of [] = []"
| "lines_of (c # cs) =
     (if c = CHR ''\<newline>'' then [] # lines_of cs
      else (case lines_of cs of [] \<Rightarrow> [[c]] | l # ls \<Rightarrow> (c # l) # ls))"

definition hex_val :: "char \<Rightarrow> nat option" where
  "hex_val c =
     (let n = (of_char c :: nat) in
      if 48 \<le> n \<and> n \<le> 57 then Some (n - 48)
      else if 65 \<le> n \<and> n \<le> 70 then Some (n - 55)
      else None)"

fun hex_parse :: "string \<Rightarrow> nat \<Rightarrow> nat option" where
  "hex_parse [] acc = Some acc"
| "hex_parse (c # cs) acc =
     (case hex_val c of None \<Rightarrow> None | Some d \<Rightarrow> hex_parse cs (16 * acc + d))"

text \<open>
  A line of the report is \<^verbatim>\<open>0x\<close>, 8 uppercase hexadecimal digits, a space and a name.
  \<open>line_code\<close> is the value of the digits and \<open>line_name\<close> the name; both are \<open>None\<close>
  on a line of another shape.
\<close>

definition line_code :: "string \<Rightarrow> 32 word option" where
  "line_code l =
     (if take 2 l = ''0x'' \<and> length (take 8 (drop 2 l)) = 8 \<and> take 1 (drop 10 l) = '' ''
      then map_option word_of_nat (hex_parse (take 8 (drop 2 l)) 0)
      else None)"

definition line_name :: "string \<Rightarrow> string option" where
  "line_name l = (if line_code l = None then None else Some (drop 11 l))"

definition printed_codes :: "invocation \<Rightarrow> 32 word option list" where
  "printed_codes iv = map line_code (lines_of (snd (main iv [])))"

definition printed_names :: "invocation \<Rightarrow> string option list" where
  "printed_names iv = map line_name (lines_of (snd (main iv [])))"

text \<open>
  The packing formula in the words of the spec: the bitwise OR of the direction code
  shifted to bits 31..30, the payload size shifted to the 14-bit field below it, the magic
  number shifted to the next 8 bits, and the command number in the low 8 bits, at a width
  of 32 bits.
\<close>

definition spec_ioctl_code :: "32 word \<Rightarrow> nat \<Rightarrow> 32 word \<Rightarrow> 32 word \<Rightarrow> 32 word" where
  "spec_ioctl_code dir payload_size magic nr =
     push_bit 30 dir OR push_bit 16 (word_of_nat payload_size) OR push_bit 8 magic OR nr"

section \<open>Sizes of the payload records\<close>

lemma sizeof_gpiochip_info: "sizeof gpiochip_info = 68"
  by code_simp

lemma sizeof_gpio_v2_line_attribute: "sizeof gpio_v2_line_attribute = 16"
  by code_simp

lemma sizeof_gpio_v2_line_config_attribute: "sizeof gpio_v2_line_config_attribute = 24"
  by code_simp

lemma sizeof_gpio_v2_line_config: "sizeof gpio_v2_line_config = 272"
  by code_simp

lemma sizeof_gpio_v2_line_request: "sizeof gpio_v2_line_request = 592"
  by code_simp

lemma sizeof_gpio_v2_line_info: "sizeof gpio_v2_line_info = 256"
  by code_simp

lemma sizeof_gpio_v2_line_values: "sizeof gpio_v2_line_values = 16"
  by code_simp

lemma alignof_gpio_v2_line_attribute: "alignof gpio_v2_line_attribute = 8"
  by code_simp

lemmas sizeof_payloads =
  sizeof_gpiochip_info sizeof_gpio_v2_line_attribute sizeof_gpio_v2_line_config_attribute
  sizeof_gpio_v2_line_config sizeof_gpio_v2_line_request sizeof_gpio_v2_line_info
  sizeof_gpio_v2_line_values

section \<open>Values of the ioctl codes\<close>

lemmas IOC_shifts =
  IOC_NRBITS_def IOC_TYPEBITS_def IOC_SIZEBITS_def
  IOC_NRSHIFT_def IOC_TYPESHIFT_def IOC_SIZESHIFT_def IOC_DIRSHIFT_def

lemma IOC_unfold:
  "IOC dir ty nr sz = ucast (push_bit 30 dir OR push_bit 8 ty OR nr) OR push_bit 16 sz"
  by (simp add: IOC_def IOC_shifts)

lemmas IOC_macros = IOR_def IOWR_def IOC_unfold IOC_READ_def IOC_WRITE_def

lemma GPIO_GET_CHIPINFO_IOCTL_value: "GPIO_GET_CHIPINFO_IOCTL = 0x8044B401"
  by (simp add: GPIO_GET_CHIPINFO_IOCTL_def IOC_macros sizeof_payloads)

lemma GPIO_V2_GET_LINEINFO_IOCTL_value: "GPIO_V2_GET_LINEINFO_IOCTL = 0xC100B405"
  by (simp add: GPIO_V2_GET_LINEINFO_IOCTL_def IOC_macros sizeof_payloads)

lemma GPIO_V2_GET_LINEINFO_WATCH_IOCTL_value: "GPIO_V2_GET_LINEINFO_WATCH_IOCTL = 0xC100B406"
  by (simp add: GPIO_V2_GET_LINEINFO_WATCH_IOCTL_def IOC_macros sizeof_payloads)

lemma GPIO_V2_GET_LINE_IOCTL_value: "GPIO_V2_GET_LINE_IOCTL = 0xC250B407"
  by (simp add: GPIO_V2_GET_LINE_IOCTL_def IOC_macros sizeof_payloads)

lemma GPIO_GET_LINEINFO_UNWATCH_IOCTL_value: "GPIO_GET_LINEINFO_UNWATCH_IOCTL = 0xC004B40C"
  by (simp add: GPIO_GET_LINEINFO_UNWATCH_IOCTL_def IOC_macros)

lemma GPIO_V2_LINE_SET_CONFIG_IOCTL_value: "GPIO_V2_LINE_SET_CONFIG_IOCTL = 0xC110B40D"
  by (simp add: GPIO_V2_LINE_SET_CONFIG_IOCTL_def IOC_macros sizeof_payloads)

lemma GPIO_V2_LINE_GET_VALUES_IOCTL_value: "GPIO_V2_LINE_GET_VALUES_IOCTL = 0xC010B40E"
  by (simp add: GPIO_V2_LINE_GET_VALUES_IOCTL_def IOC_macros sizeof_payloads)

lemma GPIO_V2_LINE_SET_VALUES_IOCTL_value: "GPIO_V2_LINE_SET_VALUES_IOCTL = 0xC010B40F"
  by (simp add: GPIO_V2_LINE_SET_VALUES_IOCTL_def IOC_macros sizeof_payloads)

lemmas ioctl_values =
  GPIO_GET_CHIPINFO_IOCTL_value GPIO_V2_GET_LINEINFO_IOCTL_value
  GPIO_V2_GET_LINEINFO_WATCH_IOCTL_value GPIO_V2_GET_LINE_IOCTL_value
  GPIO_GET_LINEINFO_UNWATCH_IOCTL_value GPIO_V2_LINE_SET_CONFIG_IOCTL_value
  GPIO_V2_LINE_GET_VALUES_IOCTL_value GPIO_V2_LINE_SET_VALUES_IOCTL_value

section \<open>The text of the report\<close>

lemma printf_GPIO_GET_CHIPINFO_IOCTL:
  "printf ''0x%08X GPIO_GET_CHIPINFO_IOCTL\<newline>'' GPIO_GET_CHIPINFO_IOCTL
     = ''0x8044B401 GPIO_GET_CHIPINFO_IOCTL\<newline>''"
  by (simp add: GPIO_GET_CHIPINFO_IOCTL_value fmt_08X_def hex_of_nat.simps hex_digit_def)

lemma printf_GPIO_V2_GET_LINEINFO_IOCTL:
  "printf ''0x%08X GPIO_V2_GET_LINEINFO_IOCTL\<newline>'' GPIO_V2_GET_LINEINFO_IOCTL
     = ''0xC100B405 GPIO_V2_GET_LINEINFO_IOCTL\<newline>''"
  by (simp add: GPIO_V2_GET_LINEINFO_IOCTL_value fmt_08X_def hex_of_nat.simps hex_digit_def)

lemma printf_GPIO_V2_GET_LINEINFO_WATCH_IOCTL:
  "printf ''0x%08X GPIO_V2_GET_LINEINFO_WATCH_IOCTL\<newline>'' GPIO_V2_GET_LINEINFO_WATCH_IOCTL
     = ''0xC100B406 GPIO_V2_GET_LINEINFO_WATCH_IOCTL\<newline>''"
  by (simp add: GPIO_V2_GET_LINEINFO_WATCH_IOCTL_value fmt_08X_def hex_of_nat.simps hex_digit_def)

lemma printf_GPIO_V2_GET_LINE_IOCTL:
  "printf ''0x%08X GPIO_V2_GET_LINE_IOCTL\<newline>'' GPIO_V2_GET_LINE_IOCTL
     = ''0xC250B407 GPIO_V2_GET_LINE_IOCTL\<newline>''"
  by (simp add: GPIO_V2_GET_LINE_IOCTL_value fmt_08X_def hex_of_nat.simps hex_digit_def)

lemma printf_GPIO_GET_LINEINFO_UNWATCH_IOCTL:
  "printf ''0x%08X GPIO_GET_LINEINFO_UNWATCH_IOCTL\<newline>'' GPIO_GET_LINEINFO_UNWATCH_IOCTL
     = ''0xC004B40C GPIO_GET_LINEINFO_UNWATCH_IOCTL\<newline>''"
  by (simp add: GPIO_GET_LINEINFO_UNWATCH_IOCTL_value fmt_08X_def hex_of_nat.simps hex_digit_def)

lemma printf_GPIO_V2_LINE_SET_CONFIG_IOCTL:
  "printf ''0x%08X GPIO_V2_LINE_SET_CONFIG_IOCTL\<newline>'' GPIO_V2_LINE_SET_CONFIG_IOCTL
     = ''0xC110B40D GPIO_V2_LINE_SET_CONFIG_IOCTL\<newline>''"
  by (simp add: GPIO_V2_LINE_SET_CONFIG_IOCTL_value fmt_08X_def hex_of_nat.simps hex_digit_def)

lemma printf_GPIO_V2_LINE_GET_VALUES_IOCTL:
  "printf ''0x%08X GPIO_V2_LINE_GET_VALUES_IOCTL\<newline>'' GPIO_V2_LINE_GET_VALUES_IOCTL
     = ''0xC010B40E GPIO_V2_LINE_GET_VALUES_IOCTL\<newline>''"
  by (simp add: GPIO_V2_LINE_GET_VALUES_IOCTL_value fmt_08X_def hex_of_nat.simps hex_digit_def)

lemma printf_GPIO_V2_LINE_SET_VALUES_IOCTL:
  "printf ''0x%08X GPIO_V2_LINE_SET_VALUES_IOCTL\<newline>'' GPIO_V2_LINE_SET_VALUES_IOCTL
     = ''0xC010B40F GPIO_V2_LINE_SET_VALUES_IOCTL\<newline>''"
  by (simp add: GPIO_V2_LINE_SET_VALUES_IOCTL_value fmt_08X_def hex_of_nat.simps hex_digit_def)

lemmas printf_lines =
  printf_GPIO_GET_CHIPINFO_IOCTL printf_GPIO_V2_GET_LINEINFO_IOCTL
  printf_GPIO_V2_GET_LINEINFO_WATCH_IOCTL printf_GPIO_V2_GET_LINE_IOCTL
  printf_GPIO_GET_LINEINFO_UNWATCH_IOCTL printf_GPIO_V2_LINE_SET_CONFIG_IOCTL
  printf_GPIO_V2_LINE_GET_VALUES_IOCTL printf_GPIO_V2_LINE_SET_VALUES_IOCTL

lemma main_appends:
  "main iv out0 = (0, out0 @
     ''0x8044B401 GPIO_GET_CHIPINFO_IOCTL\<newline>'' @
     ''0xC100B405 GPIO_V2_GET_LINEINFO_IOCTL\<newline>'' @
     ''0xC100B406 GPIO_V2_GET_LINEINFO_WATCH_IOCTL\<newline>'' @
     ''0xC250B407 GPIO_V2_GET_LINE_IOCTL\<newline>'' @
     ''0xC004B40C GPIO_GET_LINEINFO_UNWATCH_IOCTL\<newline>'' @
     ''0xC110B40D GPIO_V2_LINE_SET_CONFIG_IOCTL\<newline>'' @
     ''0xC010B40E GPIO_V2_LINE_GET_VALUES_IOCTL\<newline>'' @
     ''0xC010B40F GPIO_V2_LINE_SET_VALUES_IOCTL\<newline>'')"
  unfolding main_def Let_def printf_lines by simp

lemma main_lines:
  "lines_of (snd (main iv [])) =
    [''0x8044B401 GPIO_GET_CHIPINFO_IOCTL'',
     ''0xC100B405 GPIO_V2_GET_LINEINFO_IOCTL'',
     ''0xC100B406 GPIO_V2_GET_LINEINFO_WATCH_IOCTL'',
     ''0xC250B407 GPIO_V2_GET_LINE_IOCTL'',
     ''0xC004B40C GPIO_GET_LINEINFO_UNWATCH_IOCTL'',
     ''0xC110B40D GPIO_V2_LINE_SET_CONFIG_IOCTL'',
     ''0xC010B40E GPIO_V2_LINE_GET_VALUES_IOCTL'',
     ''0xC010B40F GPIO_V2_LINE_SET_VALUES_IOCTL'']"
  by (simp add: main_appends)

lemma printed_codes_values:
  "printed_codes iv =
    [Some 0x8044B401, Some 0xC100B405, Some 0xC100B406, Some 0xC250B407,
     Some 0xC004B40C, Some 0xC110B40D, Some 0xC010B40E, Some 0xC010B40F]"
  by (simp add: printed_codes_def main_lines line_code_def hex_val_def)

lemma printed_names_values:
  "printed_names iv =
    [Some ''GPIO_GET_CHIPINFO_IOCTL'',
     Some ''GPIO_V2_GET_LINEINFO_IOCTL'',
     Some ''GPIO_V2_GET_LINEINFO_WATCH_IOCTL'',
     Some ''GPIO_V2_GET_LINE_IOCTL'',
     Some ''GPIO_GET_LINEINFO_UNWATCH_IOCTL'',
     Some ''GPIO_V2_LINE_SET_CONFIG_IOCTL'',
     Some ''GPIO_V2_LINE_GET_VALUES_IOCTL'',
     Some ''GPIO_V2_LINE_SET_VALUES_IOCTL'']"
  by (simp add: printed_names_def main_lines line_name_def line_code_def hex_val_def)

section \<open>The conversion in general\<close>

text \<open>
  For every 32-bit value the conversion \<^verbatim>\<open>%08X\<close> gives exactly 8 characters, all of them
  uppercase hexadecimal digits, and reading a printed line back returns the value and the
  name that were printed.
\<close>

lemma hex_val_hex_digit: "d < 16 \<Longrightarrow> hex_val (hex_digit d) = Some d"
proof -
  assume "d < 16"
  then have "d = 0 \<or> d = 1 \<or> d = 2 \<or> d = 3 \<or> d = 4 \<or> d = 5 \<or> d = 6 \<or> d = 7
      \<or> d = 8 \<or> d = 9 \<or> d = 10 \<or> d = 11 \<or> d = 12 \<or> d = 13 \<or> d = 14 \<or> d = 15"
    by arith
  then show ?thesis
    by (auto simp add: hex_val_def hex_digit_def)
qed

lemma hex_digit_upper: "hex_digit d \<in> set ''0123456789ABCDEF''"
  unfolding hex_digit_def by (rule nth_mem) simp

lemma hex_parse_append:
  "hex_parse (xs @ ys) acc =
     (case hex_parse xs acc of None \<Rightarrow> None | Some a \<Rightarrow> hex_parse ys a)"
  by (induction xs arbitrary: acc) (auto split: option.splits)

lemma hex_parse_hex_of_nat: "hex_parse (hex_of_nat n) 0 = Some n"
proof (induction n rule: hex_of_nat.induct)
  case (1 n)
  show ?case
  proof (cases "n < 16")
    case True
    then show ?thesis
      by (simp add: hex_of_nat.simps [of n] hex_val_hex_digit)
  next
    case False
    with 1 have "hex_parse (hex_of_nat (n div 16)) 0 = Some (n div 16)"
      by simp
    with False show ?thesis
      by (simp add: hex_of_nat.simps [of n] hex_parse_append hex_val_hex_digit)
  qed
qed

lemma length_hex_of_nat: "n < 16 ^ k \<Longrightarrow> 0 < k \<Longrightarrow> length (hex_of_nat n) \<le> k"
proof (induction n arbitrary: k rule: hex_of_nat.induct)
  case (1 n)
  show ?case
  proof (cases "n < 16")
    case True
    with 1(3) show ?thesis
      by (simp add: hex_of_nat.simps [of n])
  next
    case False
    obtain j where k: "k = Suc j"
      using 1(3) by (cases k) auto
    have "0 < j"
    proof (rule ccontr)
      assume "\<not> 0 < j"
      with k 1(2) False show False by simp
    qed
    moreover have "n div 16 < 16 ^ j"
      using 1(2) k by (simp add: less_mult_imp_div_less mult.commute)
    ultimately have "length (hex_of_nat (n div 16)) \<le> j"
      using 1(1) False by simp
    with False k show ?thesis
      by (simp add: hex_of_nat.simps [of n])
  qed
qed

lemma hex_of_nat_upper: "set (hex_of_nat n) \<subseteq> set ''0123456789ABCDEF''"
proof (induction n rule: hex_of_nat.induct)
  case (1 n)
  show ?case
  proof (cases "n < 16")
    case True
    then show ?thesis
      using hex_digit_upper [of n] by (simp add: hex_of_nat.simps [of n])
  next
    case False
    with 1 have "set (hex_of_nat (n div 16)) \<subseteq> set ''0123456789ABCDEF''"
      by simp
    with False show ?thesis
      using hex_digit_upper [of "n mod 16"] by (simp add: hex_of_nat.simps [of n])
  qed
qed

lemma hex_parse_zeros: "hex_parse (replicate m CHR ''0'' @ ds) 0 = hex_parse ds 0"
  by (induction m) (simp_all add: hex_val_def)

lemma length_fmt_08X: "length (fmt_08X w) = 8"
proof -
  have "unat w < 2 ^ 32"
    using unsigned_less [of w] by simp
  then have "unat w < 16 ^ 8"
    by simp
  then have "length (hex_of_nat (unat w)) \<le> 8"
    by (rule length_hex_of_nat) simp
  then show ?thesis
    by (simp add: fmt_08X_def Let_def)
qed

lemma fmt_08X_upper: "set (fmt_08X w) \<subseteq> set ''0123456789ABCDEF''"
  using hex_of_nat_upper [of "unat w"]
  by (auto simp add: fmt_08X_def Let_def)

lemma hex_parse_fmt_08X: "hex_parse (fmt_08X w) 0 = Some (unat w)"
  by (simp add: fmt_08X_def Let_def hex_parse_zeros hex_parse_hex_of_nat)

lemma line_code_printed:
  "line_code (''0x'' @ fmt_08X w @ '' '' @ name) = Some w"
  by (simp add: line_code_def length_fmt_08X hex_parse_fmt_08X)

lemma line_name_printed:
  "line_name (''0x'' @ fmt_08X w @ '' '' @ name) = Some name"
  by (simp only: line_name_def line_code_printed) (simp add: length_fmt_08X)

lemma printf_08X:
  "printf (''0x%08X '' @ name) v = ''0x'' @ fmt_08X (ucast v) @ '' '' @ name"
  by simp

lemma replicate_7: "replicate 7 x = [x, x, x, x, x, x, x]"
  by (simp add: numeral_eq_Suc)

lemma replicate_8: "replicate 8 x = [x, x, x, x, x, x, x, x]"
  by (simp add: numeral_eq_Suc)

section \<open>Bounded fields of the encoding\<close>

lemma word_less_take_bit: "w < 2 ^ n \<Longrightarrow> take_bit n w = w" for w :: "'a::len word"
  by (simp add: take_bit_eq_mask less_mask_eq)

lemma IOC_size_field:
  assumes "ty < 256" and "nr < 256" and "sz \<le> 0x3FFF"
  shows "take_bit 14 (drop_bit 16 (ucast (IOC dir ty nr sz) :: 32 word)) = ucast sz"
proof -
  have "sz < 2 ^ 14"
    using assms(3) by (simp add: word_le_nat_alt word_less_nat_alt)
  then have sz: "take_bit 14 sz = sz"
    by (rule word_less_take_bit)
  have ty: "take_bit 8 ty = ty"
    using assms(1) by (intro word_less_take_bit) simp
  have nr: "take_bit 8 nr = nr"
    using assms(2) by (intro word_less_take_bit) simp
  have "take_bit 14 (drop_bit 16
          (ucast (IOC dir (take_bit 8 ty) (take_bit 8 nr) (take_bit 14 sz)) :: 32 word))
        = ucast (take_bit 14 sz)"
    unfolding IOC_unfold by (rule bit_word_eqI) (auto simp add: bit_simps)
  then show ?thesis
    by (simp only: sz ty nr)
qed

lemma IOC_low_32_bits:
  "uint (ucast (IOC dir ty nr sz) :: 32 word) =
     (push_bit 30 (uint dir) OR push_bit 16 (uint sz) OR push_bit 8 (uint ty) OR uint nr)
       mod 2 ^ 32"
  unfolding IOC_unfold take_bit_eq_mod [symmetric]
  by (rule bit_eqI) (auto simp add: bit_simps)

section \<open>Verified properties of the report\<close>

text \<open>
  C1. Each value the program prints is the bitwise OR of the four shifted fields, applied
  to the direction, the magic number 0xB4, the command number and the payload size of that
  entry; read back, the fields sit in bits 31..30, 29..16, 15..8 and 7..0. The same
  holds of the 32 bits that \<^verbatim>\<open>printf\<close> takes from each 64-bit macro value.
\<close>

theorem printed_codes_are_packed_fields:
  "printed_codes iv =
     [Some (spec_ioctl_code IOC_READ (sizeof gpiochip_info) 0xB4 0x01),
      Some (spec_ioctl_code (IOC_READ OR IOC_WRITE) (sizeof gpio_v2_line_info) 0xB4 0x05),
      Some (spec_ioctl_code (IOC_READ OR IOC_WRITE) (sizeof gpio_v2_line_info) 0xB4 0x06),
      Some (spec_ioctl_code (IOC_READ OR IOC_WRITE) (sizeof gpio_v2_line_request) 0xB4 0x07),
      Some (spec_ioctl_code (IOC_READ OR IOC_WRITE) (sizeof C_u32) 0xB4 0x0C),
      Some (spec_ioctl_code (IOC_READ OR IOC_WRITE) (sizeof gpio_v2_line_config) 0xB4 0x0D),
      Some (spec_ioctl_code (IOC_READ OR IOC_WRITE) (sizeof gpio_v2_line_values) 0xB4 0x0E),
      Some (spec_ioctl_code (IOC_READ OR IOC_WRITE) (sizeof gpio_v2_line_values) 0xB4 0x0F)]
   \<and> map (map_option (\<lambda>c. (drop_bit 30 c, unat (take_bit 14 (drop_bit 16 c)),
                             take_bit 8 (drop_bit 8 c), take_bit 8 c)))
         (printed_codes iv) =
     [Some (IOC_READ, sizeof gpiochip_info, 0xB4, 0x01),
      Some (IOC_READ OR IOC_WRITE, sizeof gpio_v2_line_info, 0xB4, 0x05),
      Some (IOC_READ OR IOC_WRITE, sizeof gpio_v2_line_info, 0xB4, 0x06),
      Some (IOC_READ OR IOC_WRITE, sizeof gpio_v2_line_request, 0xB4, 0x07),
      Some (IOC_READ OR IOC_WRITE, sizeof C_u32, 0xB4, 0x0C),
      Some (IOC_READ OR IOC_WRITE, sizeof gpio_v2_line_config, 0xB4, 0x0D),
      Some (IOC_READ OR IOC_WRITE, sizeof gpio_v2_line_values, 0xB4, 0x0E),
      Some (IOC_READ OR IOC_WRITE, sizeof gpio_v2_line_values, 0xB4, 0x0F)]
   \<and> map Some (map ucast
         [GPIO_GET_CHIPINFO_IOCTL, GPIO_V2_GET_LINEINFO_IOCTL,
          GPIO_V2_GET_LINEINFO_WATCH_IOCTL, GPIO_V2_GET_LINE_IOCTL,
          GPIO_GET_LINEINFO_UNWATCH_IOCTL, GPIO_V2_LINE_SET_CONFIG_IOCTL,
          GPIO_V2_LINE_GET_VALUES_IOCTL, GPIO_V2_LINE_SET_VALUES_IOCTL]) =
     printed_codes iv"
  by (simp add: printed_codes_values spec_ioctl_code_def sizeof_payloads ioctl_values
      IOC_READ_def IOC_WRITE_def)

text \<open>
  C2. The chip-info code is built with direction READ, magic 0xB4, command 0x01 and the
  size of \<^verbatim>\<open>struct gpiochip_info\<close>, which is 68 bytes (two arrays of 32 \<^verbatim>\<open>char\<close> and one
  \<^verbatim>\<open>__u32\<close>); its value is 0x8044B401, and that is what the first line of the report shows.
\<close>

theorem chipinfo_ioctl_value:
  "sizeof gpiochip_info = 2 * 32 + 4
   \<and> sizeof gpiochip_info = 68
   \<and> GPIO_GET_CHIPINFO_IOCTL = IOC IOC_READ 0xB4 0x01 68
   \<and> GPIO_GET_CHIPINFO_IOCTL = 0x8044B401
   \<and> hd (lines_of (snd (main iv []))) = ''0x8044B401 GPIO_GET_CHIPINFO_IOCTL''
   \<and> hd (printed_codes iv) = Some 0x8044B401
   \<and> (0x8044B401 :: 32 word) = push_bit 30 2 OR push_bit 16 68 OR push_bit 8 0xB4 OR 0x01"
  by (simp add: sizeof_gpiochip_info GPIO_GET_CHIPINFO_IOCTL_value main_lines
      printed_codes_values IOC_unfold IOC_READ_def)

text \<open>
  C3, as the claim states it: the report has exactly 7 lines. The program prints 8.
\<close>

theorem report_seven_lines_counterexample:
  "length (lines_of (snd (main \<lparr>argv = [], environ = []\<rparr> []))) \<noteq> 7"
  by (simp add: main_lines)

text \<open>
  C3, amended. A run started with no arguments writes exactly 8 lines, each of them
  \<^verbatim>\<open>0x\<close>, 8 uppercase hexadecimal digits, a space and a symbolic name, the 8 names in the
  order of the \<^verbatim>\<open>printf\<close> calls of \<^verbatim>\<open>main\<close>; every line ends with a newline.
\<close>

theorem report_eight_lines:
  "snd (main \<lparr>argv = [], environ = env\<rparr> []) =
     concat (map (\<lambda>l. l @ ''\<newline>'')
       [''0x8044B401 GPIO_GET_CHIPINFO_IOCTL'',
        ''0xC100B405 GPIO_V2_GET_LINEINFO_IOCTL'',
        ''0xC100B406 GPIO_V2_GET_LINEINFO_WATCH_IOCTL'',
        ''0xC250B407 GPIO_V2_GET_LINE_IOCTL'',
        ''0xC004B40C GPIO_GET_LINEINFO_UNWATCH_IOCTL'',
        ''0xC110B40D GPIO_V2_LINE_SET_CONFIG_IOCTL'',
        ''0xC010B40E GPIO_V2_LINE_GET_VALUES_IOCTL'',
        ''0xC010B40F GPIO_V2_LINE_SET_VALUES_IOCTL''])
   \<and> length (lines_of (snd (main \<lparr>argv = [], environ = env\<rparr> []))) = 8
   \<and> printed_names \<lparr>argv = [], environ = env\<rparr> =
       [Some ''GPIO_GET_CHIPINFO_IOCTL'',
        Some ''GPIO_V2_GET_LINEINFO_IOCTL'',
        Some ''GPIO_V2_GET_LINEINFO_WATCH_IOCTL'',
        Some ''GPIO_V2_GET_LINE_IOCTL'',
        Some ''GPIO_GET_LINEINFO_UNWATCH_IOCTL'',
        Some ''GPIO_V2_LINE_SET_CONFIG_IOCTL'',
        Some ''GPIO_V2_LINE_GET_VALUES_IOCTL'',
        Some ''GPIO_V2_LINE_SET_VALUES_IOCTL'']
   \<and> map (\<lambda>l. (take 2 l, length (take 8 (drop 2 l)),
                 filter (\<lambda>c. c \<notin> set ''0123456789ABCDEF'') (take 8 (drop 2 l)),
                 take 1 (drop 10 l)))
         (lines_of (snd (main \<lparr>argv = [], environ = env\<rparr> []))) =
       replicate 8 (''0x'', 8, [], '' '')"
  unfolding printed_names_values main_lines
  by (simp add: main_appends replicate_8)

text \<open>
  C4. \<^verbatim>\<open>struct gpio_v2_line_config_attribute\<close> is 8 bytes larger than
  \<^verbatim>\<open>struct gpio_v2_line_attribute\<close> (24 = 16 + 8), the 64-bit fields being aligned to
  8 bytes, and each of the seven payload records has one fixed size.
\<close>

theorem payload_record_sizes:
  "sizeof gpio_v2_line_config_attribute = sizeof gpio_v2_line_attribute + 8
   \<and> sizeof gpio_v2_line_attribute = 16
   \<and> sizeof gpio_v2_line_config_attribute = 24
   \<and> alignof C_aligned_u64 = 8
   \<and> alignof gpio_v2_line_attribute = 8
   \<and> map sizeof
        [gpiochip_info, gpio_v2_line_attribute, gpio_v2_line_config_attribute,
         gpio_v2_line_config, gpio_v2_line_request, gpio_v2_line_info, gpio_v2_line_values] =
      [68, 16, 24, 272, 592, 256, 16]"
  by (simp add: sizeof_payloads alignof_gpio_v2_line_attribute)

text \<open>
  C5. For the encoding \<open>IOC\<close>, with magic and command numbers of 8 bits: a payload size up
  to the largest value of the 14-bit size field, and so the size \<open>2 ^ 14 - 1\<close> itself,
  reads back from the size field unchanged. For every size, in range or not, the 32 bits
  printed are those of the same shift-and-OR formula, taken modulo \<open>2 ^ 32\<close>: the
  function has no failure result and checks nothing. At the size \<open>2 ^ 14\<close> the size bits
  run into the direction field, and at the size \<open>2 ^ 16\<close> they are cut off altogether.
\<close>

theorem IOC_size_boundary:
  "(ty < 256 \<and> nr < 256 \<and> sz \<le> 2 ^ IOC_SIZEBITS - 1 \<longrightarrow>
      take_bit IOC_SIZEBITS (drop_bit IOC_SIZESHIFT (ucast (IOC dir ty nr sz) :: 32 word))
        = ucast sz)
   \<and> uint (ucast (IOC dir ty nr sz) :: 32 word) =
       (push_bit 30 (uint dir) OR push_bit 16 (uint sz) OR push_bit 8 (uint ty) OR uint nr)
         mod 2 ^ 32
   \<and> (ucast (IOC IOC_READ 0xB4 0x01 (2 ^ 14)) :: 32 word) = 0xC000B401
   \<and> (ucast (IOC IOC_READ 0xB4 0x01 (2 ^ 16)) :: 32 word) = 0x8000B401"
proof -
  have "take_bit 14 (drop_bit 16 (ucast (IOC dir ty nr sz) :: 32 word)) = ucast sz"
    if "ty < 256" and "nr < 256" and "sz \<le> 2 ^ 14 - 1"
    using that by (intro IOC_size_field) simp_all
  moreover have "(ucast (IOC IOC_READ 0xB4 0x01 (2 ^ 14)) :: 32 word) = 0xC000B401"
    by (simp add: IOC_unfold IOC_READ_def)
  moreover have "(ucast (IOC IOC_READ 0xB4 0x01 (2 ^ 16)) :: 32 word) = 0x8000B401"
    by (simp add: IOC_unfold IOC_READ_def)
  ultimately show ?thesis
    by (simp only: IOC_low_32_bits IOC_shifts) simp
qed

theorem IOC_size_boundary_witness:
  "(0xB4 :: 32 word) < 256 \<and> (0x07 :: 32 word) < 256
   \<and> (0x3FFF :: 64 word) \<le> 2 ^ IOC_SIZEBITS - 1
   \<and> take_bit IOC_SIZEBITS
        (drop_bit IOC_SIZESHIFT (ucast (IOC (IOC_READ OR IOC_WRITE) 0xB4 0x07 0x3FFF) :: 32 word))
       = 0x3FFF
   \<and> (ucast (IOC (IOC_READ OR IOC_WRITE) 0xB4 0x07 0x3FFF) :: 32 word) = 0xFFFFB407"
proof -
  have h: "(0xB4 :: 32 word) < 256 \<and> (0x07 :: 32 word) < 256
             \<and> (0x3FFF :: 64 word) \<le> 2 ^ IOC_SIZEBITS - 1"
    by (simp add: IOC_shifts)
  have v: "(ucast (IOC (IOC_READ OR IOC_WRITE) 0xB4 0x07 0x3FFF) :: 32 word) = 0xFFFFB407"
    by (simp add: IOC_unfold IOC_READ_def IOC_WRITE_def)
  from h v IOC_size_boundary [of "0xB4" "0x07" "0x3FFF" "IOC_READ OR IOC_WRITE"]
  show ?thesis
    by simp
qed

text \<open>
  C6. What a run writes does not depend on how it is started nor on what was written
  before: two runs, with any arguments and environment, append the same bytes, and any
  number of runs in a row append that many copies of the one report.
\<close>

theorem report_is_deterministic:
  "snd (main iv1 out1) = out1 @ snd (main iv2 [])
   \<and> run_all ivs out0 = out0 @ concat (replicate (length ivs) (snd (main iv2 [])))"
proof
  show one: "snd (main iv1 out1) = out1 @ snd (main iv2 [])" for iv1 out1
    by (simp add: main_appends)
  show "run_all ivs out0 = out0 @ concat (replicate (length ivs) (snd (main iv2 [])))"
  proof (induction ivs arbitrary: out0)
    case Nil
    show ?case by simp
  next
    case (Cons iv ivs)
    have "run_all (iv # ivs) out0 = run_all ivs (out0 @ snd (main iv2 []))"
      by (simp add: one [of iv out0])
    also have "\<dots> = (out0 @ snd (main iv2 []))
                      @ concat (replicate (length ivs) (snd (main iv2 [])))"
      by (rule Cons.IH)
    finally show ?case by simp
  qed
qed

text \<open>
  C7. Every run returns the exit status 0, after appending the 8 lines of the report to the
  standard output: \<open>main\<close> is a total function with no other result.
\<close>

theorem main_exit_status:
  "fst (main iv out0) = 0
   \<and> snd (main iv out0) = out0 @ snd (main iv [])
   \<and> length (lines_of (snd (main iv []))) = 8"
  by (simp add: main_appends main_lines)

text \<open>
  C8. The command bytes of the printed codes are 0x01, 0x05, 0x06, 0x07, 0x0C, 0x0D, 0x0E
  and 0x0F, pairwise distinct; so are the printed 32-bit codes, and the macro values.
\<close>

theorem command_numbers_distinct:
  "map (map_option (\<lambda>c. c AND 0xFF)) (printed_codes iv) =
     map Some [0x01, 0x05, 0x06, 0x07, 0x0C, 0x0D, 0x0E, 0x0F]
   \<and> distinct (map (map_option (\<lambda>c. c AND 0xFF)) (printed_codes iv))
   \<and> distinct (printed_codes iv)
   \<and> None \<notin> set (printed_codes iv)
   \<and> distinct [GPIO_GET_CHIPINFO_IOCTL, GPIO_V2_GET_LINEINFO_IOCTL,
        GPIO_V2_GET_LINEINFO_WATCH_IOCTL, GPIO_V2_GET_LINE_IOCTL,
        GPIO_GET_LINEINFO_UNWATCH_IOCTL, GPIO_V2_LINE_SET_CONFIG_IOCTL,
        GPIO_V2_LINE_GET_VALUES_IOCTL, GPIO_V2_LINE_SET_VALUES_IOCTL]"
  by (simp add: printed_codes_values ioctl_values)

text \<open>
  C9. Every printed code has the magic byte 0xB4 in bits 15..8.
\<close>

theorem printed_codes_magic:
  "map (map_option (\<lambda>c. drop_bit 8 c AND 0xFF)) (printed_codes iv) = replicate 8 (Some 0xB4)"
  by (simp add: printed_codes_values replicate_8)

text \<open>
  C10. Of the printed codes exactly one, the first, \<^verbatim>\<open>GPIO_GET_CHIPINFO_IOCTL\<close>, has the
  direction READ alone in bits 31..30; each of the other seven has READ and WRITE, both
  bits set.
\<close>

theorem printed_codes_direction:
  "map (map_option (drop_bit 30)) (printed_codes iv) =
     Some IOC_READ # replicate 7 (Some (IOC_READ OR IOC_WRITE))
   \<and> hd (printed_names iv) = Some ''GPIO_GET_CHIPINFO_IOCTL''
   \<and> length (filter (\<lambda>c. map_option (drop_bit 30) c = Some IOC_READ) (printed_codes iv)) = 1
   \<and> IOC_READ = 2 \<and> IOC_READ OR IOC_WRITE = 3"
  by (simp add: printed_codes_values printed_names_values IOC_READ_def IOC_WRITE_def
      replicate_7)

end
